theory Spec2Isabelle
  imports Complex_Main
begin

section \<open>JavaScript values\<close>

text \<open>
  The SDK (src/SwapSDK.ts) passes request arguments and response bodies along without
  looking into them, except in the response interceptor, which reads three properties of
  the error body and tests them for truthiness. Runtime values are therefore modelled as
  a datatype of JavaScript values: \<open>undefined\<close>, \<open>null\<close>, booleans, numbers,
  strings, arrays and plain objects (a list of key/value pairs in insertion order; a
  JavaScript object has each key once, and a lookup reads the first pair of a key).

  A number is an IEEE double: NaN, an infinity, or a finite value (a rational here; the
  two zeros are one value, both falsy). No function of the SDK computes with a number.
\<close>

datatype js_number = NaN | Infinity | NegInfinity | Finite rat

datatype js_value =
    JUndefined
  | JNull
  | JBool bool
  | JNum js_number
  | JStr string
  | JArr "js_value list"
  | JObj "(string \<times> js_value) list"

text \<open>ToBoolean: the falsy values are undefined, null, false, 0, NaN and the empty string.\<close>

fun truthy :: "js_value \<Rightarrow> bool" where
  "truthy JUndefined = False"
| "truthy JNull = False"
| "truthy (JBool b) = b"
| "truthy (JNum n) = (n \<noteq> NaN \<and> n \<noteq> Finite 0)"
| "truthy (JStr s) = (s \<noteq> [])"
| "truthy (JArr xs) = True"
| "truthy (JObj kvs) = True"

text \<open>The operator \<open>a || b\<close>: the left operand when it is truthy, else the right one.\<close>

definition js_or :: "js_value \<Rightarrow> js_value \<Rightarrow> js_value" where
  "js_or a b = (if truthy a then a else b)"

text \<open>
  Optional chaining \<open>data?.key\<close> for the keys the SDK reads (\<open>message\<close>,
  \<open>error\<close>, \<open>code\<close>): undefined on undefined and null; on an object the property,
  undefined when the object has none; on a primitive or an array undefined, since their
  prototypes define none of the three.
\<close>

fun opt_chain :: "js_value \<Rightarrow> string \<Rightarrow> js_value" where
  "opt_chain (JObj kvs) key = (case map_of kvs key of Some v \<Rightarrow> v | None \<Rightarrow> JUndefined)"
| "opt_chain v key = JUndefined"

text \<open>
  ToString, as applied by the \<open>Error\<close> constructor to its argument and by a template
  literal to an interpolated value. A string is itself; undefined, null and the booleans
  print their names. How the runtime prints numbers, arrays and objects is a parameter
  \<open>fmt\<close> of the model: every theorem holds for every such function.
\<close>

fun ToString :: "(js_value \<Rightarrow> string) \<Rightarrow> js_value \<Rightarrow> string" where
  "ToString fmt (JStr s) = s"
| "ToString fmt JUndefined = ''undefined''"
| "ToString fmt JNull = ''null''"
| "ToString fmt (JBool b) = (if b then ''true'' else ''false'')"
| "ToString fmt v = fmt v"

section \<open>The HTTP client the SDK drives\<close>

text \<open>
  The SDK owns one axios instance. Of axios the model keeps what the SDK's code touches:
  the configuration object the constructor hands to \<open>axios.create\<close> (base URL,
  timeout, headers), the request configuration that reaches the request interceptor, the
  response, and the error a failed call rejects with.

  A headers object is a JavaScript object: a map from property name to value, a name
  being the exact spelling of a key. The SDK reads and writes such objects by exact key
  (an object literal with a spread, a property assignment). What axios makes of them is
  not the SDK's code and not modelled as such: how \<open>axios.create\<close> folds the
  names of the given headers into the instance's defaults, which headers of its own it
  adds, and which headers object it hands to the request interceptor for a call, is a
  parameter of the model (\<open>axios_headers\<close> below).
\<close>

datatype http_method = GET | POST

text \<open>The argument of \<open>axios.create\<close>, which stands for the instance created from it.\<close>

record CreateAxiosDefaults =
  baseURL :: string
  timeout :: js_number
  headers :: "string \<rightharpoonup> string"

record AxiosRequestConfig =
  req_method :: http_method
  url :: string
  params :: js_value
  req_data :: js_value
  req_headers :: "string \<rightharpoonup> string"

record AxiosResponse =
  status :: int
  data :: js_value

text \<open>
  The error of a failed call: \<open>response\<close> is present when the server answered with an
  error status, \<open>request\<close> is the request object when one was sent (any value; the
  interceptor tests its truthiness), \<open>err_message\<close> is the error's \<open>message\<close>
  property.
\<close>

record AxiosError =
  response :: "AxiosResponse option"
  request :: js_value
  err_message :: js_value

text \<open>
  What lies beyond the SDK: the runtime's printing of non-string values; axios's
  building of the headers object of a request, from the configuration the instance was
  created with and the request's method, before the request interceptor runs; and the
  transport, which settles the request configuration leaving the request interceptor
  with a response (a 2xx status) or with an error. Every theorem holds for every choice
  of the three.
\<close>

record Env =
  fmt :: "js_value \<Rightarrow> string"
  axios_headers :: "CreateAxiosDefaults \<Rightarrow> http_method \<Rightarrow> (string \<rightharpoonup> string)"
  adapter :: "AxiosRequestConfig \<Rightarrow> AxiosError + AxiosResponse"

section \<open>SwapAPIError and SwapSDK\<close>

record SwapAPIError =
  name :: string
  message :: string
  code :: js_value

text \<open>
  \<open>new SwapAPIError(message, code)\<close>: \<open>super(message)\<close> stores the message as a
  string, \<open>code\<close> is stored as given (undefined when the argument is left out).
\<close>

definition SwapAPIError_new :: "(js_value \<Rightarrow> string) \<Rightarrow> js_value \<Rightarrow> js_value \<Rightarrow> SwapAPIError" where
  "SwapAPIError_new f msg c = \<lparr>name = ''SwapAPIError'', message = ToString f msg, code = c\<rparr>"

record SwapSDKOptions =
  opt_baseURL :: "string option"
  opt_timeout :: "js_number option"
  opt_headers :: "(string \<rightharpoonup> string) option"

record SwapSDK =
  client :: CreateAxiosDefaults
  authToken :: "string option"

text \<open>
  The constructor: the destructuring defaults apply to the options left undefined; the
  object literal \<open>{'Content-Type': 'application/json', ...headers}\<close> writes the fixed
  entry first and the caller's entries after it, so a later entry of the same key
  replaces it (\<open>++\<close> on maps: the right map wins), and an entry of another key, also
  one that differs in case only, stands beside it. \<open>client\<close> is the object handed
  to \<open>axios.create\<close>. The token starts undefined.
\<close>

definition SwapSDK_new :: "SwapSDKOptions \<Rightarrow> SwapSDK" where
  "SwapSDK_new options =
     (let b = (case opt_baseURL options of None \<Rightarrow> ''https://zos.computer/'' | Some x \<Rightarrow> x);
          t = (case opt_timeout options of None \<Rightarrow> Finite 10000 | Some x \<Rightarrow> x);
          h = (case opt_headers options of None \<Rightarrow> Map.empty | Some x \<Rightarrow> x)
      in \<lparr>client = \<lparr>baseURL = b, timeout = t,
                      headers = [''Content-Type'' \<mapsto> ''application/json''] ++ h\<rparr>,
          authToken = None\<rparr>)"

definition setAuthToken :: "SwapSDK \<Rightarrow> string \<Rightarrow> SwapSDK" where
  "setAuthToken this token = this\<lparr>authToken := Some token\<rparr>"

definition clearAuthToken :: "SwapSDK \<Rightarrow> SwapSDK" where
  "clearAuthToken this = this\<lparr>authToken := None\<rparr>"

definition getAuthToken :: "SwapSDK \<Rightarrow> string option" where
  "getAuthToken this = authToken this"

subsection \<open>Interceptors\<close>

text \<open>
  The request interceptor: \<open>if (this.authToken)\<close> is a truthiness test, false for
  undefined and for the empty string. The assignment writes the property
  \<open>x-auth-token\<close>, under this spelling, of the headers object of the configuration
  of this one request. The interceptor's second handler,
  \<open>(error) => Promise.reject(error)\<close>, passes on the failure of an earlier request
  interceptor; the SDK registers no other, so no call reaches it.
\<close>

definition request_interceptor :: "SwapSDK \<Rightarrow> AxiosRequestConfig \<Rightarrow> AxiosRequestConfig" where
  "request_interceptor this config =
     (case authToken this of
        None \<Rightarrow> config
      | Some t \<Rightarrow>
          if t \<noteq> [] then config\<lparr>req_headers := (req_headers config)(''x-auth-token'' \<mapsto> t)\<rparr>
          else config)"

definition response_interceptor :: "AxiosResponse \<Rightarrow> AxiosResponse" where
  "response_interceptor r = r"

definition response_error_interceptor :: "(js_value \<Rightarrow> string) \<Rightarrow> AxiosError \<Rightarrow> SwapAPIError" where
  "response_error_interceptor f error =
     (case response error of
        Some r \<Rightarrow>
          (let d = data r;
               msg = js_or (opt_chain d ''message'')
                       (js_or (opt_chain d ''error'') (JStr ''Unknown error occurred''));
               c = opt_chain d ''code''
           in SwapAPIError_new f msg c)
      | None \<Rightarrow>
          if truthy (request error)
          then SwapAPIError_new f (JStr ''Network error: No response received from server'')
                 JUndefined
          else SwapAPIError_new f (JStr (''Request error: '' @ ToString f (err_message error)))
                 JUndefined)"

subsection \<open>One call through the client\<close>

text \<open>
  A call of an endpoint method has three effects an observer can see: the request
  configuration handed to the transport (after the request interceptor), the way the
  returned promise settles (\<open>Inl\<close> a rejection, \<open>Inr\<close> the resolved value), and the
  SDK instance as the call leaves it.
\<close>

record Call =
  dispatched :: AxiosRequestConfig
  settled :: "SwapAPIError + js_value"
  instance_after :: SwapSDK

text \<open>
  \<open>this.client.get(endpoint, {params})\<close> and \<open>this.client.post(endpoint, data)\<close>:
  the configuration carries the headers object axios builds for the instance and the
  method, runs through the request interceptor and is settled by the transport; a response passes the response
  interceptor's first handler, an error its second. The private \<open>get\<close> and \<open>post\<close>
  of the SDK return \<open>response.data\<close>.
\<close>

definition client_request :: "Env \<Rightarrow> SwapSDK \<Rightarrow> AxiosRequestConfig \<Rightarrow> AxiosRequestConfig \<times> (SwapAPIError + AxiosResponse)" where
  "client_request env this config =
     (let sent = request_interceptor this config
      in (sent,
          case adapter env sent of
            Inr r \<Rightarrow> Inr (response_interceptor r)
          | Inl e \<Rightarrow> Inl (response_error_interceptor (fmt env) e)))"

definition client_get :: "Env \<Rightarrow> SwapSDK \<Rightarrow> string \<Rightarrow> js_value \<Rightarrow> AxiosRequestConfig \<times> (SwapAPIError + AxiosResponse)" where
  "client_get env this endpoint ps =
     client_request env this
       \<lparr>req_method = GET, url = endpoint, params = ps, req_data = JUndefined,
        req_headers = axios_headers env (client this) GET\<rparr>"

definition client_post :: "Env \<Rightarrow> SwapSDK \<Rightarrow> string \<Rightarrow> js_value \<Rightarrow> AxiosRequestConfig \<times> (SwapAPIError + AxiosResponse)" where
  "client_post env this endpoint d =
     client_request env this
       \<lparr>req_method = POST, url = endpoint, params = JUndefined, req_data = d,
        req_headers = axios_headers env (client this) POST\<rparr>"

definition get :: "Env \<Rightarrow> SwapSDK \<Rightarrow> string \<Rightarrow> js_value \<Rightarrow> Call" where
  "get env this endpoint ps =
     (case client_get env this endpoint ps of
        (sent, Inl e) \<Rightarrow> \<lparr>dispatched = sent, settled = Inl e, instance_after = this\<rparr>
      | (sent, Inr r) \<Rightarrow> \<lparr>dispatched = sent, settled = Inr (data r), instance_after = this\<rparr>)"

definition post :: "Env \<Rightarrow> SwapSDK \<Rightarrow> string \<Rightarrow> js_value \<Rightarrow> Call" where
  "post env this endpoint d =
     (case client_post env this endpoint d of
        (sent, Inl e) \<Rightarrow> \<lparr>dispatched = sent, settled = Inl e, instance_after = this\<rparr>
      | (sent, Inr r) \<Rightarrow> \<lparr>dispatched = sent, settled = Inr (data r), instance_after = this\<rparr>)"

subsection \<open>Endpoint methods\<close>

definition getCurrencies :: "Env \<Rightarrow> SwapSDK \<Rightarrow> Call" where
  "getCurrencies env this = get env this ''/swap/currencies'' JUndefined"

definition getExchangeRate :: "Env \<Rightarrow> SwapSDK \<Rightarrow> string \<Rightarrow> string \<Rightarrow> js_number \<Rightarrow> Call" where
  "getExchangeRate env this fromCurrency toCurrency amount =
     post env this ''/swap/estimate''
       (JObj [(''fromCurrency'', JStr fromCurrency), (''toCurrency'', JStr toCurrency),
              (''amount'', JNum amount)])"

definition getExchangeRange :: "Env \<Rightarrow> SwapSDK \<Rightarrow> string \<Rightarrow> string \<Rightarrow> Call" where
  "getExchangeRange env this fromCurrency toCurrency =
     get env this ''/swap/range''
       (JObj [(''fromCurrency'', JStr fromCurrency), (''toCurrency'', JStr toCurrency)])"

text \<open>\<open>exchangeData\<close> is the caller's object, handed to \<open>post\<close> as it is.\<close>

definition createExchange :: "Env \<Rightarrow> SwapSDK \<Rightarrow> js_value \<Rightarrow> Call" where
  "createExchange env this exchangeData = post env this ''/swap/create'' exchangeData"

definition getExchangeStatus :: "Env \<Rightarrow> SwapSDK \<Rightarrow> string \<Rightarrow> Call" where
  "getExchangeStatus env this swapId = get env this (''/swap/status/'' @ swapId) JUndefined"

definition getSwapHistory :: "Env \<Rightarrow> SwapSDK \<Rightarrow> Call" where
  "getSwapHistory env this = get env this ''/swap/history'' JUndefined"

definition getSwapDetails :: "Env \<Rightarrow> SwapSDK \<Rightarrow> string \<Rightarrow> Call" where
  "getSwapDetails env this swapId = get env this (''/swap/'' @ swapId) JUndefined"

text \<open>
  The seven methods with their arguments, as one type, so that a statement about every
  endpoint method quantifies over \<open>endpoint_call\<close>; \<open>invoke\<close> calls the method.
\<close>

datatype endpoint_call =
    GetCurrencies
  | GetExchangeRate string string js_number
  | GetExchangeRange string string
  | CreateExchange js_value
  | GetExchangeStatus string
  | GetSwapHistory
  | GetSwapDetails string

fun invoke :: "Env \<Rightarrow> SwapSDK \<Rightarrow> endpoint_call \<Rightarrow> Call" where
  "invoke env this GetCurrencies = getCurrencies env this"
| "invoke env this (GetExchangeRate f t a) = getExchangeRate env this f t a"
| "invoke env this (GetExchangeRange f t) = getExchangeRange env this f t"
| "invoke env this (CreateExchange d) = createExchange env this d"
| "invoke env this (GetExchangeStatus i) = getExchangeStatus env this i"
| "invoke env this GetSwapHistory = getSwapHistory env this"
| "invoke env this (GetSwapDetails i) = getSwapDetails env this i"

text \<open>The instance after a sequence of endpoint calls, issued one after the other.\<close>

fun invoke_all :: "Env \<Rightarrow> SwapSDK \<Rightarrow> endpoint_call list \<Rightarrow> SwapSDK" where
  "invoke_all env this [] = this"
| "invoke_all env this (c # cs) = invoke_all env (instance_after (invoke env this c)) cs"

text \<open>
  Transports for concrete inputs, as the mocks of the test suite
  (\<open>mockResolvedValue\<close>, \<open>mockRejectedValue\<close>): every request settles the same way.
\<close>

definition mockResolvedValue :: "AxiosResponse \<Rightarrow> AxiosRequestConfig \<Rightarrow> AxiosError + AxiosResponse" where
  "mockResolvedValue r config = Inr r"

definition mockRejectedValue :: "AxiosError \<Rightarrow> AxiosRequestConfig \<Rightarrow> AxiosError + AxiosResponse" where
  "mockRejectedValue e config = Inl e"

definition plain_fmt :: "js_value \<Rightarrow> string" where
  "plain_fmt v = ''[object Object]''"

text \<open>
  An axios for concrete inputs: the headers object of a request holds axios's own
  \<open>Accept\<close> default and the headers the instance was created with, each under the
  name it was given. It is used below only on instances whose headers are
  \<open>Content-Type\<close> and at most one more, \<open>x-auth-token\<close> or \<open>X-Client\<close>, names
  that differ in more than case and are no method names.
\<close>

definition given_headers :: "CreateAxiosDefaults \<Rightarrow> http_method \<Rightarrow> (string \<rightharpoonup> string)" where
  "given_headers d m = [''Accept'' \<mapsto> ''application/json, text/plain, */*''] ++ headers d"

definition no_options :: SwapSDKOptions where
  "no_options = \<lparr>opt_baseURL = None, opt_timeout = None, opt_headers = None\<rparr>"

definition rejecting :: "AxiosError \<Rightarrow> Env" where
  "rejecting e =
     \<lparr>fmt = plain_fmt, axios_headers = given_headers, adapter = mockRejectedValue e\<rparr>"

definition resolving :: "AxiosResponse \<Rightarrow> Env" where
  "resolving r =
     \<lparr>fmt = plain_fmt, axios_headers = given_headers, adapter = mockResolvedValue r\<rparr>"

text \<open>The error axios rejects with when the server answers with an error status.\<close>

definition status_error :: "int \<Rightarrow> js_value \<Rightarrow> AxiosError" where
  "status_error st body =
     \<lparr>response = Some \<lparr>status = st, data = body\<rparr>, request = JObj [],
      err_message = JStr ''Request failed''\<rparr>"

text \<open>Options whose only entry is a headers map with the single header \<open>k: v\<close>.\<close>

definition header_options :: "string \<Rightarrow> string \<Rightarrow> SwapSDKOptions" where
  "header_options k v =
     \<lparr>opt_baseURL = None, opt_timeout = None, opt_headers = Some [k \<mapsto> v]\<rparr>"

text \<open>
  What a request puts on the wire besides its headers: method, path, query parameters
  and body.
\<close>

definition wire :: "AxiosRequestConfig \<Rightarrow> http_method \<times> string \<times> js_value \<times> js_value" where
  "wire config = (req_method config, url config, params config, req_data config)"

section \<open>How one call unfolds\<close>

lemma get_dispatched:
  "dispatched (get env this ep ps) =
     request_interceptor this
       \<lparr>req_method = GET, url = ep, params = ps, req_data = JUndefined,
        req_headers = axios_headers env (client this) GET\<rparr>"
  by (simp add: get_def client_get_def client_request_def Let_def split: sum.splits)

lemma post_dispatched:
  "dispatched (post env this ep d) =
     request_interceptor this
       \<lparr>req_method = POST, url = ep, params = JUndefined, req_data = d,
        req_headers = axios_headers env (client this) POST\<rparr>"
  by (simp add: post_def client_post_def client_request_def Let_def split: sum.splits)

lemma get_settled:
  "settled (get env this ep ps) =
     (case adapter env (dispatched (get env this ep ps)) of
        Inl e \<Rightarrow> Inl (response_error_interceptor (fmt env) e)
      | Inr r \<Rightarrow> Inr (data r))"
  by (simp add: get_def client_get_def client_request_def response_interceptor_def Let_def
      split: sum.splits)

lemma post_settled:
  "settled (post env this ep d) =
     (case adapter env (dispatched (post env this ep d)) of
        Inl e \<Rightarrow> Inl (response_error_interceptor (fmt env) e)
      | Inr r \<Rightarrow> Inr (data r))"
  by (simp add: post_def client_post_def client_request_def response_interceptor_def Let_def
      split: sum.splits)

lemma get_instance: "instance_after (get env this ep ps) = this"
  by (simp add: get_def split: prod.splits sum.splits)

lemma post_instance: "instance_after (post env this ep d) = this"
  by (simp add: post_def split: prod.splits sum.splits)

lemmas endpoint_defs =
  getCurrencies_def getExchangeRate_def getExchangeRange_def createExchange_def
  getExchangeStatus_def getSwapHistory_def getSwapDetails_def

lemma invoke_settled:
  "settled (invoke env this c) =
     (case adapter env (dispatched (invoke env this c)) of
        Inl e \<Rightarrow> Inl (response_error_interceptor (fmt env) e)
      | Inr r \<Rightarrow> Inr (data r))"
  by (cases c) (simp_all only: invoke.simps endpoint_defs get_settled post_settled)

lemma invoke_instance: "instance_after (invoke env this c) = this"
  by (cases c) (simp_all add: endpoint_defs get_instance post_instance)

lemma invoke_all_instance: "invoke_all env this cs = this"
  by (induction cs) (simp_all add: invoke_instance)

lemma request_interceptor_headers:
  "req_headers (request_interceptor this config) =
     (case authToken this of
        None \<Rightarrow> req_headers config
      | Some t \<Rightarrow> if t \<noteq> [] then (req_headers config)(''x-auth-token'' \<mapsto> t)
                  else req_headers config)"
  by (simp add: request_interceptor_def split: option.splits)

lemma request_interceptor_wire: "wire (request_interceptor this config) = wire config"
  by (simp add: request_interceptor_def wire_def split: option.splits)

lemma request_interceptor_method:
  "req_method (request_interceptor this config) = req_method config"
  by (simp add: request_interceptor_def split: option.splits)

lemma invoke_method:
  "req_method (dispatched (invoke env this c)) = req_method (dispatched (invoke env' this' c))"
  by (cases c)
    (simp_all add: endpoint_defs get_dispatched post_dispatched request_interceptor_method)

lemma invoke_headers:
  "req_headers (dispatched (invoke env this c)) =
     (case authToken this of
        None \<Rightarrow> axios_headers env (client this) (req_method (dispatched (invoke env this c)))
      | Some t \<Rightarrow>
          if t \<noteq> []
          then (axios_headers env (client this) (req_method (dispatched (invoke env this c))))
                 (''x-auth-token'' \<mapsto> t)
          else axios_headers env (client this) (req_method (dispatched (invoke env this c))))"
  by (cases c)
    (simp_all add: endpoint_defs get_dispatched post_dispatched request_interceptor_headers
      request_interceptor_method split: option.splits)

section \<open>Error normalization\<close>

text \<open>
  C1 (as amended). For every endpoint method: when the call fails with an error that
  carries a response (the server answered with an error status), the method rejects
  with a SwapAPIError whose message is the body's \<open>message\<close> property when that is
  truthy, else the body's \<open>error\<close> property when that is truthy, else the literal
  "Unknown error occurred" (a string is taken as it is, any other truthy value as the
  runtime prints it), and whose code is the body's \<open>code\<close> property, undefined when
  the body has none.
\<close>

theorem error_response_normalized:
  assumes "adapter env (dispatched (invoke env this c)) = Inl e"
    and "response e = Some r"
  shows "settled (invoke env this c) =
           Inl \<lparr>name = ''SwapAPIError'',
                message = ToString (fmt env)
                  (if truthy (opt_chain (data r) ''message'') then opt_chain (data r) ''message''
                   else if truthy (opt_chain (data r) ''error'') then opt_chain (data r) ''error''
                   else JStr ''Unknown error occurred''),
                code = opt_chain (data r) ''code''\<rparr>"
  using assms
  by (simp add: invoke_settled response_error_interceptor_def SwapAPIError_new_def js_or_def
      Let_def)

text \<open>
  The body of the test suite's API error, on \<open>getExchangeRange\<close>: message and code
  are the body's.
\<close>

theorem error_response_normalized_witness:
  "adapter
     (rejecting (status_error 400
        (JObj [(''error'', JStr ''Bad Request''), (''message'', JStr ''Invalid parameters''),
               (''code'', JStr ''INVALID_PARAMS'')])))
     (dispatched (invoke
        (rejecting (status_error 400
           (JObj [(''error'', JStr ''Bad Request''), (''message'', JStr ''Invalid parameters''),
                  (''code'', JStr ''INVALID_PARAMS'')])))
        (SwapSDK_new no_options) (GetExchangeRange ''zec'' ''sol'')))
     = Inl (status_error 400
        (JObj [(''error'', JStr ''Bad Request''), (''message'', JStr ''Invalid parameters''),
               (''code'', JStr ''INVALID_PARAMS'')]))
   \<and> settled (invoke
        (rejecting (status_error 400
           (JObj [(''error'', JStr ''Bad Request''), (''message'', JStr ''Invalid parameters''),
                  (''code'', JStr ''INVALID_PARAMS'')])))
        (SwapSDK_new no_options) (GetExchangeRange ''zec'' ''sol''))
     = Inl \<lparr>name = ''SwapAPIError'', message = ''Invalid parameters'',
            code = JStr ''INVALID_PARAMS''\<rparr>"
proof -
  let ?body = "JObj [(''error'', JStr ''Bad Request''), (''message'', JStr ''Invalid parameters''),
                     (''code'', JStr ''INVALID_PARAMS'')]"
  let ?env = "rejecting (status_error 400 ?body)"
  have sent: "adapter ?env (dispatched (invoke ?env (SwapSDK_new no_options)
                (GetExchangeRange ''zec'' ''sol''))) = Inl (status_error 400 ?body)"
    by (simp add: rejecting_def mockRejectedValue_def)
  have resp: "response (status_error 400 ?body) = Some \<lparr>status = 400, data = ?body\<rparr>"
    by (simp add: status_error_def)
  show ?thesis
    using sent error_response_normalized [OF sent resp] by simp
qed

text \<open>
  The claim as stated fails on a body whose \<open>message\<close> property is present and empty:
  the rejection's message is the \<open>error\<close> property, not the \<open>message\<close> property.
\<close>

theorem empty_message_falls_through:
  "map_of [(''message'', JStr ''''), (''error'', JStr ''Bad Request'')] ''message''
     = Some (JStr '''')
   \<and> settled (getCurrencies
        (rejecting (status_error 400
           (JObj [(''message'', JStr ''''), (''error'', JStr ''Bad Request'')])))
        (SwapSDK_new no_options))
     = Inl \<lparr>name = ''SwapAPIError'', message = ''Bad Request'', code = JUndefined\<rparr>"
  by (simp add: getCurrencies_def get_settled rejecting_def mockRejectedValue_def
      status_error_def response_error_interceptor_def SwapAPIError_new_def js_or_def Let_def)

text \<open>
  C6. For every endpoint method: when the call fails with an error that carries no
  response but a request (the request was sent and no response arrived), the method
  rejects with the message "Network error: No response received from server" and no code.
\<close>

theorem no_response_network_error:
  assumes "adapter env (dispatched (invoke env this c)) = Inl e"
    and "response e = None"
    and "truthy (request e)"
  shows "settled (invoke env this c) =
           Inl \<lparr>name = ''SwapAPIError'',
                message = ''Network error: No response received from server'',
                code = JUndefined\<rparr>"
  using assms
  by (simp add: invoke_settled response_error_interceptor_def SwapAPIError_new_def)

theorem no_response_network_error_witness:
  "adapter
     (rejecting \<lparr>response = None, request = JObj [], err_message = JStr ''timeout''\<rparr>)
     (dispatched (invoke
        (rejecting \<lparr>response = None, request = JObj [], err_message = JStr ''timeout''\<rparr>)
        (SwapSDK_new no_options) GetSwapHistory))
     = Inl \<lparr>response = None, request = JObj [], err_message = JStr ''timeout''\<rparr>
   \<and> truthy (JObj [])
   \<and> settled (invoke
        (rejecting \<lparr>response = None, request = JObj [], err_message = JStr ''timeout''\<rparr>)
        (SwapSDK_new no_options) GetSwapHistory)
     = Inl \<lparr>name = ''SwapAPIError'',
            message = ''Network error: No response received from server'',
            code = JUndefined\<rparr>"
proof -
  let ?e = "\<lparr>response = None, request = JObj [], err_message = JStr ''timeout''\<rparr>"
  have sent: "adapter (rejecting ?e)
      (dispatched (invoke (rejecting ?e) (SwapSDK_new no_options) GetSwapHistory)) = Inl ?e"
    by (simp add: rejecting_def mockRejectedValue_def)
  have "response ?e = None" and "truthy (request ?e)"
    by simp_all
  from no_response_network_error [OF sent this] sent show ?thesis
    by simp
qed

text \<open>
  C7. For every endpoint method: when the call fails with an error that carries neither
  a response nor a request (the request could not be built or sent), the method rejects
  with the message "Request error: " followed by the underlying error's message (as the
  template literal prints it: a string message is itself) and no code.
\<close>

theorem unsendable_request_error:
  assumes "adapter env (dispatched (invoke env this c)) = Inl e"
    and "response e = None"
    and "\<not> truthy (request e)"
  shows "settled (invoke env this c) =
           Inl \<lparr>name = ''SwapAPIError'',
                message = ''Request error: '' @ ToString (fmt env) (err_message e),
                code = JUndefined\<rparr>"
  using assms
  by (simp add: invoke_settled response_error_interceptor_def SwapAPIError_new_def)

theorem unsendable_request_error_witness:
  "adapter
     (rejecting \<lparr>response = None, request = JUndefined, err_message = JStr ''Invalid URL''\<rparr>)
     (dispatched (invoke
        (rejecting \<lparr>response = None, request = JUndefined, err_message = JStr ''Invalid URL''\<rparr>)
        (SwapSDK_new no_options) (GetSwapDetails ''swap-123'')))
     = Inl \<lparr>response = None, request = JUndefined, err_message = JStr ''Invalid URL''\<rparr>
   \<and> \<not> truthy JUndefined
   \<and> settled (invoke
        (rejecting \<lparr>response = None, request = JUndefined, err_message = JStr ''Invalid URL''\<rparr>)
        (SwapSDK_new no_options) (GetSwapDetails ''swap-123''))
     = Inl \<lparr>name = ''SwapAPIError'', message = ''Request error: Invalid URL'',
            code = JUndefined\<rparr>"
proof -
  let ?e = "\<lparr>response = None, request = JUndefined, err_message = JStr ''Invalid URL''\<rparr>"
  have sent: "adapter (rejecting ?e)
      (dispatched (invoke (rejecting ?e) (SwapSDK_new no_options) (GetSwapDetails ''swap-123'')))
      = Inl ?e"
    by (simp add: rejecting_def mockRejectedValue_def)
  have "response ?e = None" and "\<not> truthy (request ?e)"
    by simp_all
  from unsendable_request_error [OF sent this] sent show ?thesis
    by simp
qed

section \<open>Results and requests of the endpoint methods\<close>

text \<open>
  C3. For every endpoint method: when the transport answers the dispatched request with a
  successful response, the method resolves with exactly the body of that response.
\<close>

theorem success_body_passthrough:
  assumes "adapter env (dispatched (invoke env this c)) = Inr r"
  shows "settled (invoke env this c) = Inr (data r)"
  using assms by (simp add: invoke_settled)

theorem success_body_passthrough_witness:
  "adapter
     (resolving \<lparr>status = 200,
        data = JObj [(''min'', JNum (Finite (1 / 1000))), (''max'', JNum (Finite 100))]\<rparr>)
     (dispatched (invoke
        (resolving \<lparr>status = 200,
           data = JObj [(''min'', JNum (Finite (1 / 1000))), (''max'', JNum (Finite 100))]\<rparr>)
        (SwapSDK_new no_options) (GetExchangeRange ''zec'' ''sol'')))
     = Inr \<lparr>status = 200,
          data = JObj [(''min'', JNum (Finite (1 / 1000))), (''max'', JNum (Finite 100))]\<rparr>
   \<and> settled (invoke
        (resolving \<lparr>status = 200,
           data = JObj [(''min'', JNum (Finite (1 / 1000))), (''max'', JNum (Finite 100))]\<rparr>)
        (SwapSDK_new no_options) (GetExchangeRange ''zec'' ''sol''))
     = Inr (JObj [(''min'', JNum (Finite (1 / 1000))), (''max'', JNum (Finite 100))])"
proof -
  let ?r = "\<lparr>status = 200,
      data = JObj [(''min'', JNum (Finite (1 / 1000))), (''max'', JNum (Finite 100))]\<rparr>"
  have sent: "adapter (resolving ?r)
      (dispatched (invoke (resolving ?r) (SwapSDK_new no_options)
         (GetExchangeRange ''zec'' ''sol''))) = Inr ?r"
    by (simp add: resolving_def mockResolvedValue_def)
  from success_body_passthrough [OF sent] sent show ?thesis
    by simp
qed

text \<open>
  C4. Method, path, query parameters and body of the request each endpoint method
  dispatches, for all arguments: \<open>getCurrencies\<close> GET /swap/currencies without
  parameters; \<open>getExchangeRate\<close> POST /swap/estimate with the body
  {fromCurrency, toCurrency, amount}; \<open>getExchangeRange\<close> GET /swap/range with the
  query {fromCurrency, toCurrency}; \<open>createExchange\<close> POST /swap/create with the
  caller's object as body; \<open>getExchangeStatus\<close> GET /swap/status/{swapId};
  \<open>getSwapHistory\<close> GET /swap/history; \<open>getSwapDetails\<close> GET /swap/{swapId}.
\<close>

theorem endpoint_requests:
  "wire (dispatched (getCurrencies env this)) =
     (GET, ''/swap/currencies'', JUndefined, JUndefined)
   \<and> wire (dispatched (getExchangeRate env this fromCurrency toCurrency amount)) =
     (POST, ''/swap/estimate'', JUndefined,
      JObj [(''fromCurrency'', JStr fromCurrency), (''toCurrency'', JStr toCurrency),
            (''amount'', JNum amount)])
   \<and> wire (dispatched (getExchangeRange env this fromCurrency toCurrency)) =
     (GET, ''/swap/range'',
      JObj [(''fromCurrency'', JStr fromCurrency), (''toCurrency'', JStr toCurrency)],
      JUndefined)
   \<and> wire (dispatched (createExchange env this exchangeData)) =
     (POST, ''/swap/create'', JUndefined, exchangeData)
   \<and> wire (dispatched (getExchangeStatus env this swapId)) =
     (GET, ''/swap/status/'' @ swapId, JUndefined, JUndefined)
   \<and> wire (dispatched (getSwapHistory env this)) =
     (GET, ''/swap/history'', JUndefined, JUndefined)
   \<and> wire (dispatched (getSwapDetails env this swapId)) =
     (GET, ''/swap/'' @ swapId, JUndefined, JUndefined)"
  unfolding endpoint_defs get_dispatched post_dispatched request_interceptor_wire
  by (simp add: wire_def)

text \<open>
  C9. The swap id is appended to the path as it is, so \<open>getSwapDetails\<close> on
  "status/" followed by an id dispatches the request of \<open>getExchangeStatus\<close> on
  that id: the same path, and the same call altogether.
\<close>

theorem swap_details_meets_status_path:
  "url (dispatched (getSwapDetails env this swapId)) = ''/swap/'' @ swapId
   \<and> req_method (dispatched (getSwapDetails env this (''status/'' @ swapId))) = GET
   \<and> url (dispatched (getSwapDetails env this (''status/'' @ swapId)))
       = url (dispatched (getExchangeStatus env this swapId))
   \<and> getSwapDetails env this (''status/'' @ swapId) = getExchangeStatus env this swapId"
proof -
  have w: "wire (dispatched (getSwapDetails env this i)) = (GET, ''/swap/'' @ i, JUndefined, JUndefined)"
    for i
    unfolding getSwapDetails_def get_dispatched request_interceptor_wire
    by (simp add: wire_def)
  have u: "url (dispatched (getSwapDetails env this i)) = ''/swap/'' @ i" for i
    using w [of i] by (simp add: wire_def)
  have m: "req_method (dispatched (getSwapDetails env this i)) = GET" for i
    using w [of i] by (simp add: wire_def)
  have eq: "getSwapDetails env this (''status/'' @ swapId) = getExchangeStatus env this swapId"
    by (simp add: getSwapDetails_def getExchangeStatus_def)
  show ?thesis
  proof (intro conjI)
    show "url (dispatched (getSwapDetails env this swapId)) = ''/swap/'' @ swapId"
      by (rule u)
    show "req_method (dispatched (getSwapDetails env this (''status/'' @ swapId))) = GET"
      by (rule m)
    show "url (dispatched (getSwapDetails env this (''status/'' @ swapId)))
        = url (dispatched (getExchangeStatus env this swapId))"
      by (simp only: eq)
    show "getSwapDetails env this (''status/'' @ swapId) = getExchangeStatus env this swapId"
      by (rule eq)
  qed
qed

text \<open>
  C10. An endpoint call, however it settles, leaves the instance as it found it: the
  auth token, the base URL, the timeout and the default headers (the configuration the
  client was created with) are those before the call.
\<close>

theorem endpoint_call_frame:
  "instance_after (invoke env this c) = this
   \<and> getAuthToken (instance_after (invoke env this c)) = getAuthToken this
   \<and> baseURL (client (instance_after (invoke env this c))) = baseURL (client this)
   \<and> timeout (client (instance_after (invoke env this c))) = timeout (client this)
   \<and> headers (client (instance_after (invoke env this c))) = headers (client this)"
  by (simp add: invoke_instance)

section \<open>Construction and the auth header\<close>

text \<open>
  C5 (as amended). For every construction configuration, the headers object the
  constructor hands to \<open>axios.create\<close> holds every entry of the caller's map, the
  entry \<open>Content-Type: application/json\<close> unless the caller's map has an entry under
  the key \<open>Content-Type\<close> itself, whose value then stands in its place (the caller's
  entries are written over the fixed entry), and no other entry; without a headers map it
  is the fixed entry alone. An unspecified base URL defaults to "https://zos.computer/"
  and an unspecified timeout to 10000. (An entry of the caller's under another spelling
  of the name, such as \<open>content-type\<close>, leaves the fixed entry in the object, beside
  it; which of the two the client then sends is axios's merge of the names.)
\<close>

theorem constructor_defaults:
  "(opt_headers options = None \<longrightarrow>
      headers (client (SwapSDK_new options)) = [''Content-Type'' \<mapsto> ''application/json''])
   \<and> (\<forall>h. opt_headers options = Some h \<and> h ''Content-Type'' = None \<longrightarrow>
      headers (client (SwapSDK_new options)) ''Content-Type'' = Some ''application/json'')
   \<and> (\<forall>h k v. opt_headers options = Some h \<and> h k = Some v \<longrightarrow>
      headers (client (SwapSDK_new options)) k = Some v)
   \<and> (\<forall>h k. opt_headers options = Some h \<and> h k = None \<and> k \<noteq> ''Content-Type'' \<longrightarrow>
      headers (client (SwapSDK_new options)) k = None)
   \<and> (opt_baseURL options = None \<longrightarrow>
      baseURL (client (SwapSDK_new options)) = ''https://zos.computer/'')
   \<and> (opt_timeout options = None \<longrightarrow>
      timeout (client (SwapSDK_new options)) = Finite 10000)"
  by (auto simp add: SwapSDK_new_def map_add_def fun_eq_iff)

text \<open>
  Without options the three defaults apply; with the one header \<open>X-Client: demo\<close> the
  object holds it beside the fixed content type.
\<close>

theorem constructor_defaults_witness:
  "headers (client (SwapSDK_new no_options)) = [''Content-Type'' \<mapsto> ''application/json'']
   \<and> baseURL (client (SwapSDK_new no_options)) = ''https://zos.computer/''
   \<and> timeout (client (SwapSDK_new no_options)) = Finite 10000
   \<and> headers (client (SwapSDK_new (header_options ''X-Client'' ''demo''))) ''Content-Type''
       = Some ''application/json''
   \<and> headers (client (SwapSDK_new (header_options ''X-Client'' ''demo''))) ''X-Client''
       = Some ''demo''"
proof -
  have none: "opt_headers no_options = None" "opt_baseURL no_options = None"
    "opt_timeout no_options = None"
    by (simp_all add: no_options_def)
  have some: "opt_headers (header_options ''X-Client'' ''demo'') = Some [''X-Client'' \<mapsto> ''demo'']"
    "[''X-Client'' \<mapsto> ''demo''] ''Content-Type'' = None"
    "[''X-Client'' \<mapsto> ''demo''] ''X-Client'' = Some ''demo''"
    by (simp_all add: header_options_def)
  from constructor_defaults [of no_options]
    constructor_defaults [of "header_options ''X-Client'' ''demo''"] none some
  show ?thesis
    by blast
qed

text \<open>
  The claim as stated fails on a caller's map with a \<open>Content-Type\<close> entry: the
  caller's value replaces the fixed one.
\<close>

theorem caller_content_type_wins:
  "headers (client (SwapSDK_new (header_options ''Content-Type'' ''text/plain'')))
     ''Content-Type'' = Some ''text/plain''"
  by (simp add: SwapSDK_new_def header_options_def)

text \<open>
  C2 (as amended). For every non-empty token: after \<open>setAuthToken\<close>, the request of
  every endpoint call issued from then on (after any number of other endpoint calls)
  carries the header \<open>x-auth-token\<close> with that token, written into the headers axios
  built for the request. After \<open>clearAuthToken\<close>, and on an instance on which no token
  was ever set, the request interceptor returns the configuration it was given: the
  request carries the headers axios built for it, unmodified, and no \<open>x-auth-token\<close>
  header is attached.
\<close>

theorem auth_header_follows_token:
  "(token \<noteq> [] \<longrightarrow>
      req_headers (dispatched (invoke env (invoke_all env (setAuthToken this token) cs) c))
        ''x-auth-token'' = Some token
      \<and> req_headers (dispatched (invoke env (invoke_all env (setAuthToken this token) cs) c))
        = (axios_headers env (client this) (req_method (dispatched (invoke env this c))))
            (''x-auth-token'' \<mapsto> token))
   \<and> request_interceptor (clearAuthToken this) config = config
   \<and> request_interceptor (SwapSDK_new options) config = config
   \<and> req_headers (dispatched (invoke env (invoke_all env (clearAuthToken this) cs) c))
       = axios_headers env (client this) (req_method (dispatched (invoke env this c)))
   \<and> req_headers (dispatched (invoke env (invoke_all env (SwapSDK_new options) cs) c))
       = axios_headers env (client (SwapSDK_new options))
           (req_method (dispatched (invoke env this c)))"
proof -
  have m: "req_method (dispatched (invoke env (setAuthToken this token) c))
             = req_method (dispatched (invoke env this c))"
    "req_method (dispatched (invoke env (clearAuthToken this) c))
             = req_method (dispatched (invoke env this c))"
    "req_method (dispatched (invoke env (SwapSDK_new options) c))
             = req_method (dispatched (invoke env this c))"
    by (rule invoke_method)+
  have f: "authToken (setAuthToken this token) = Some token"
    "client (setAuthToken this token) = client this"
    "authToken (clearAuthToken this) = None"
    "client (clearAuthToken this) = client this"
    "authToken (SwapSDK_new options) = None"
    by (simp_all add: setAuthToken_def clearAuthToken_def SwapSDK_new_def)
  have i: "request_interceptor (clearAuthToken this) config = config"
    "request_interceptor (SwapSDK_new options) config = config"
    by (simp_all add: request_interceptor_def f)
  show ?thesis
    by (simp add: invoke_all_instance invoke_headers m f i)
qed

theorem auth_header_follows_token_witness:
  "''test-auth-token'' \<noteq> []
   \<and> req_headers (dispatched (invoke (resolving \<lparr>status = 200, data = JArr []\<rparr>)
        (invoke_all (resolving \<lparr>status = 200, data = JArr []\<rparr>)
           (setAuthToken (SwapSDK_new no_options) ''test-auth-token'') [GetCurrencies])
        GetSwapHistory)) ''x-auth-token''
      = Some ''test-auth-token''"
  using auth_header_follows_token
    [of "''test-auth-token''" "resolving \<lparr>status = 200, data = JArr []\<rparr>"
        "SwapSDK_new no_options" "[GetCurrencies]" GetSwapHistory]
  by simp

text \<open>
  The claim as stated fails in two ways. The empty token is set and no header is
  attached; and a header \<open>x-auth-token\<close> given to the constructor is a header of the
  instance, carried by a request before any \<open>setAuthToken\<close> and after
  \<open>clearAuthToken\<close>.
\<close>

theorem auth_header_claim_fails:
  "req_headers (dispatched (getCurrencies (resolving \<lparr>status = 200, data = JArr []\<rparr>)
       (setAuthToken (SwapSDK_new no_options) ''''))) ''x-auth-token'' = None
   \<and> req_headers (dispatched (getCurrencies (resolving \<lparr>status = 200, data = JArr []\<rparr>)
       (SwapSDK_new (header_options ''x-auth-token'' ''static'')))) ''x-auth-token''
      = Some ''static''
   \<and> req_headers (dispatched (getCurrencies (resolving \<lparr>status = 200, data = JArr []\<rparr>)
       (clearAuthToken (SwapSDK_new (header_options ''x-auth-token'' ''static'')))))
         ''x-auth-token''
      = Some ''static''"
  by (simp add: getCurrencies_def get_dispatched request_interceptor_headers
      setAuthToken_def clearAuthToken_def SwapSDK_new_def no_options_def header_options_def
      resolving_def given_headers_def)

text \<open>
  C8 (as amended). After \<open>setAuthToken\<close> with the empty string, \<open>getAuthToken\<close>
  returns the empty string, and the request interceptor, testing the token's truthiness,
  returns the configuration it was given: the request of every endpoint call issued from
  then on carries the headers axios built for it, unmodified, and no \<open>x-auth-token\<close>
  header is attached.
\<close>

theorem empty_token_stored_not_attached:
  "getAuthToken (setAuthToken this '''') = Some ''''
   \<and> request_interceptor (setAuthToken this '''') config = config
   \<and> req_headers (dispatched (invoke env (invoke_all env (setAuthToken this '''') cs) c))
       = axios_headers env (client this) (req_method (dispatched (invoke env this c)))"
proof -
  have m: "req_method (dispatched (invoke env (setAuthToken this '''') c))
             = req_method (dispatched (invoke env this c))"
    by (rule invoke_method)
  have f: "authToken (setAuthToken this '''') = Some ''''"
    "client (setAuthToken this '''') = client this"
    by (simp_all add: setAuthToken_def)
  have i: "request_interceptor (setAuthToken this '''') config = config"
    by (simp add: request_interceptor_def f)
  show ?thesis
    by (simp add: invoke_all_instance invoke_headers getAuthToken_def m f i)
qed

text \<open>
  The claim as stated fails on an instance constructed with a header \<open>x-auth-token\<close>:
  the empty token is stored, and the request carries the constructor's header.
\<close>

theorem empty_token_keeps_default_header:
  "getAuthToken (setAuthToken (SwapSDK_new (header_options ''x-auth-token'' ''static'')) '''')
     = Some ''''
   \<and> req_headers (dispatched (getSwapHistory (resolving \<lparr>status = 200, data = JArr []\<rparr>)
       (setAuthToken (SwapSDK_new (header_options ''x-auth-token'' ''static'')) '''')))
         ''x-auth-token''
      = Some ''static''"
  by (simp add: getSwapHistory_def get_dispatched request_interceptor_headers
      getAuthToken_def setAuthToken_def SwapSDK_new_def header_options_def
      resolving_def given_headers_def)

end
